theory Spec2Isabelle
  imports Main "HOL-Library.Word"
begin

section \<open>Value types of package types\<close>

text \<open>
  Go's \<^verbatim>\<open>int\<close> on a 64-bit target: arithmetic wraps around, comparisons are signed
  (\<open><s\<close>, \<open>\<le>s\<close>; \<open>sint\<close> reads the value). A \<^verbatim>\<open>float64\<close> coordinate is kept as its
  IEEE-754 bit pattern; the functions embedded here only store and copy coordinates.
\<close>

type_synonym go_int = "64 word"
type_synonym float64 = "64 word"

text \<open>A \<^verbatim>\<open>*Unit\<close> is an address into the heap of units; \<^verbatim>\<open>nil\<close> is \<open>None\<close>.\<close>

type_synonym addr = nat

text \<open>\<^verbatim>\<open>type UnitType int\<close> with its iota constants.\<close>

type_synonym UnitType = go_int

definition SCV :: UnitType where "SCV = 0"
definition Marine :: UnitType where "Marine = 1"
definition Firebat :: UnitType where "Firebat = 2"
definition Medic :: UnitType where "Medic = 3"
definition Vulture :: UnitType where "Vulture = 4"
definition SiegeTank :: UnitType where "SiegeTank = 5"
definition Goliath :: UnitType where "Goliath = 6"
definition Wraith :: UnitType where "Wraith = 7"
definition DropShip :: UnitType where "DropShip = 8"
definition Valkyrie :: UnitType where "Valkyrie = 9"
definition ScienceVessel :: UnitType where "ScienceVessel = 10"
definition Battlecruiser :: UnitType where "Battlecruiser = 11"
definition Drone :: UnitType where "Drone = 12"
definition Overlord :: UnitType where "Overlord = 13"
definition Zergling :: UnitType where "Zergling = 14"
definition Hydralisk :: UnitType where "Hydralisk = 15"
definition Lurker :: UnitType where "Lurker = 16"
definition Mutalisk :: UnitType where "Mutalisk = 17"
definition Guardian :: UnitType where "Guardian = 18"
definition Devourer :: UnitType where "Devourer = 19"
definition Queen :: UnitType where "Queen = 20"
definition Ultralisk :: UnitType where "Ultralisk = 21"
definition Defiler :: UnitType where "Defiler = 22"
definition Probe :: UnitType where "Probe = 23"
definition Zealot :: UnitType where "Zealot = 24"
definition Dragoon :: UnitType where "Dragoon = 25"
definition Templar :: UnitType where "Templar = 26"
definition DarkTemplar :: UnitType where "DarkTemplar = 27"
definition Shuttle :: UnitType where "Shuttle = 28"
definition Reaver :: UnitType where "Reaver = 29"
definition Observer :: UnitType where "Observer = 30"
definition Corsair :: UnitType where "Corsair = 31"
definition Carrier :: UnitType where "Carrier = 32"
definition Arbiter :: UnitType where "Arbiter = 33"

definition unitTypeNames :: "(UnitType \<times> string) list" where
  "unitTypeNames =
    [(SCV, ''SCV''), (Marine, ''Marine''), (Firebat, ''Firebat''), (Medic, ''Medic''),
     (Vulture, ''Vulture''), (SiegeTank, ''SiegeTank''), (Goliath, ''Goliath''),
     (Wraith, ''Wraith''), (DropShip, ''DropShip''), (Valkyrie, ''Valkyrie''),
     (ScienceVessel, ''ScienceVessel''), (Battlecruiser, ''Battlecruiser''),
     (Drone, ''Drone''), (Overlord, ''Overlord''), (Zergling, ''Zergling''),
     (Hydralisk, ''Hydralisk''), (Lurker, ''Lurker''), (Mutalisk, ''Mutalisk''),
     (Guardian, ''Guardian''), (Devourer, ''Devourer''), (Queen, ''Queen''),
     (Ultralisk, ''Ultralisk''), (Defiler, ''Defiler''), (Probe, ''Probe''),
     (Zealot, ''Zealot''), (Dragoon, ''Dragoon''), (Templar, ''Templar''),
     (DarkTemplar, ''DarkTemplar''), (Shuttle, ''Shuttle''), (Reaver, ''Reaver''),
     (Observer, ''Observer''), (Corsair, ''Corsair''), (Carrier, ''Carrier''),
     (Arbiter, ''Arbiter'')]"

text \<open>\<^verbatim>\<open>%d\<close> of \<^verbatim>\<open>fmt.Sprintf\<close>: signed decimal.\<close>

definition digit_char :: "nat \<Rightarrow> char" where
  "digit_char d = char_of (48 + d)"

function show_nat :: "nat \<Rightarrow> string" where
  "show_nat n = (if n < 10 then [digit_char n] else show_nat (n div 10) @ [digit_char (n mod 10)])"
  by pat_completeness auto
termination
  by (relation "measure id") auto

definition show_int :: "int \<Rightarrow> string" where
  "show_int k = (if k < 0 then CHR ''-'' # show_nat (nat (- k)) else show_nat (nat k))"

text \<open>\<^verbatim>\<open>func (ut UnitType) String() string\<close>\<close>

definition UnitType_String :: "UnitType \<Rightarrow> string" where
  "UnitType_String ut =
     (case map_of unitTypeNames ut of
        Some name \<Rightarrow> name
      | None \<Rightarrow> ''UnitType('' @ show_int (sint ut) @ '')'')"

datatype UnitState =
  Idle | Moving | Attacking | Defending | HoldingPosition | Patrolling | Repairing
  | Building | Dead

datatype ElevationLayer = Burrowed | Ground | Air

record Position =
  X :: float64
  Y :: float64

section \<open>Commands, events and channels\<close>

datatype CommandType = CmdMove | CmdAttack | CmdStop | CmdHold

text \<open>Records share one name space for their fields: the \<^verbatim>\<open>Type\<close> and \<^verbatim>\<open>Target\<close> fields
  of \<^verbatim>\<open>Command\<close> and \<^verbatim>\<open>UnitEvent\<close> carry a prefix, \<^verbatim>\<open>Unit\<close> keeps the plain names.\<close>

record Command =
  cmd_Type :: CommandType
  cmd_Target :: "addr option"
  Dest :: Position

datatype UnitEventType = EventDamaged | EventKilled | EventDied | EventMoved | EventIdle

text \<open>\<^verbatim>\<open>Timestamp\<close> is the reading of \<^verbatim>\<open>time.Now()\<close>, an input of the handlers here.
  \<^verbatim>\<open>Data\<close> is never set by the code and is left out.\<close>

record UnitEvent =
  ev_Type :: UnitEventType
  Source :: "addr option"
  ev_Target :: "addr option"
  Timestamp :: nat

text \<open>A buffered channel: its queue, the capacity given to \<^verbatim>\<open>make\<close>, and whether it
  has been closed.\<close>

record 'a chan =
  buf :: "'a list"
  cap :: nat
  closed :: bool

definition make_chan :: "nat \<Rightarrow> 'a chan" where
  "make_chan n = \<lparr>buf = [], cap = n, closed = False\<rparr>"

section \<open>The Unit struct\<close>

text \<open>
  The mutex only serialises access and has no field here. \<open>ctx_done\<close> is whether the
  unit's context has been cancelled (\<^verbatim>\<open>cancel()\<close> sets it), \<open>shutdownOnce\<close> whether the
  \<^verbatim>\<open>sync.Once\<close> has already run its function.
\<close>

record Unit =
  ID :: string
  Type :: UnitType
  health :: go_int
  maxHealth :: go_int
  baseDamage :: go_int
  baseArmor :: go_int
  attackModifier :: go_int
  armorModifier :: go_int
  attackUpgrades :: go_int
  armorUpgrades :: go_int
  attackRange :: go_int
  visionRange :: go_int
  state :: UnitState
  elevationLayer :: ElevationLayer
  position :: Position
  target :: "addr option"
  commands :: "Command chan"
  events :: "UnitEvent chan"
  ctx_done :: bool
  shutdownOnce :: bool

section \<open>Accessors and mutators\<close>

definition GetHealth :: "Unit \<Rightarrow> go_int" where
  "GetHealth u = health u"

definition GetDamage :: "Unit \<Rightarrow> go_int" where
  "GetDamage u = baseDamage u + attackModifier u * attackUpgrades u"

definition GetArmor :: "Unit \<Rightarrow> go_int" where
  "GetArmor u = (let totalArmor = baseArmor u + armorModifier u * armorUpgrades u in totalArmor)"

definition GetState :: "Unit \<Rightarrow> UnitState" where
  "GetState u = state u"

definition GetPosition :: "Unit \<Rightarrow> Position" where
  "GetPosition u = position u"

definition GetTarget :: "Unit \<Rightarrow> addr option" where
  "GetTarget u = target u"

definition SetState :: "Unit \<Rightarrow> UnitState \<Rightarrow> Unit" where
  "SetState u s = u\<lparr>state := s\<rparr>"

definition SetPosition :: "Unit \<Rightarrow> Position \<Rightarrow> Unit" where
  "SetPosition u p = u\<lparr>position := p\<rparr>"

definition SetTarget :: "Unit \<Rightarrow> addr option \<Rightarrow> Unit" where
  "SetTarget u t = u\<lparr>target := t\<rparr>"

text \<open>\<^verbatim>\<open>TakeDamage\<close> returns the updated unit and the value it returns to its caller.\<close>

definition TakeDamage :: "Unit \<Rightarrow> go_int \<Rightarrow> Unit \<times> go_int" where
  "TakeDamage u amount =
     (let h = health u - amount;
          u' = u\<lparr>health := (if h <s 0 then 0 else h)\<rparr>
      in (u', health u'))"


definition CalculateDamageAgainst :: "Unit \<Rightarrow> Unit \<Rightarrow> go_int" where
  "CalculateDamageAgainst u tgt =
     (let targetArmor = GetArmor tgt;
          dmg = GetDamage u;
          result = dmg - targetArmor
      in if result <s 0 then 0 else result)"

text \<open>
  The quantities the specification speaks of, as mathematical integers: base plus
  modifier times upgrades, read from the fields. \<open>in_int64\<close> says that a mathematical
  integer is a value of Go's \<^verbatim>\<open>int\<close>.
\<close>

definition in_int64 :: "int \<Rightarrow> bool" where
  "in_int64 k \<longleftrightarrow> - (2 ^ 63) \<le> k \<and> k < 2 ^ 63"

definition effective_damage :: "Unit \<Rightarrow> int" where
  "effective_damage u = sint (baseDamage u) + sint (attackModifier u) * sint (attackUpgrades u)"

definition effective_armor :: "Unit \<Rightarrow> int" where
  "effective_armor u = sint (baseArmor u) + sint (armorModifier u) * sint (armorUpgrades u)"

section \<open>Construction\<close>

text \<open>
  The parsed \<^verbatim>\<open>unit_stats.json\<close> (\<^verbatim>\<open>unitStatsCache\<close>) is not part of the sources at
  hand; it is a parameter of \<open>initializeStats\<close> and \<open>NewUnit\<close>.
\<close>

record UnitStatsData =
  MaxHealth :: go_int
  BaseDamage :: go_int
  BaseArmor :: go_int
  ArmorModifier :: go_int
  AttackModifier :: go_int
  AttackRange :: go_int
  VisionRange :: go_int
  ElevationLayer_name :: string

type_synonym stats_cache = "string \<rightharpoonup> UnitStatsData"

definition fallback_stats :: UnitStatsData where
  "fallback_stats =
     \<lparr>MaxHealth = 50, BaseDamage = 5, BaseArmor = 0, ArmorModifier = 1,
      AttackModifier = 0, AttackRange = 4, VisionRange = 7,
      ElevationLayer_name = ''Ground''\<rparr>"

definition initializeStats :: "stats_cache \<Rightarrow> Unit \<Rightarrow> UnitType \<Rightarrow> Unit" where
  "initializeStats unitStatsCache u unitType =
     (let stats = (case unitStatsCache (UnitType_String unitType) of
                     Some s \<Rightarrow> s
                   | None \<Rightarrow> fallback_stats)
      in u\<lparr>maxHealth := MaxHealth stats,
            health := MaxHealth stats,
            baseDamage := BaseDamage stats,
            baseArmor := BaseArmor stats,
            armorModifier := ArmorModifier stats,
            attackModifier := AttackModifier stats,
            armorUpgrades := 0,
            attackUpgrades := 0,
            attackRange := AttackRange stats,
            visionRange := VisionRange stats,
            elevationLayer :=
              (if ElevationLayer_name stats = ''Ground'' then Ground
               else if ElevationLayer_name stats = ''Air'' then Air
               else if ElevationLayer_name stats = ''Burrowed'' then Burrowed
               else Ground)\<rparr>)"

text \<open>
  \<^verbatim>\<open>NewUnit\<close>: the struct literal (fields it does not name take Go's zero values, so
  \<open>Burrowed\<close> for the elevation and \<^verbatim>\<open>nil\<close> for the target), then \<open>initializeStats\<close>.
  The wait group and the start of the goroutine belong to the caller and the scheduler;
  the goroutine's loop is \<open>run_iteration\<close> below.
\<close>

definition NewUnit :: "stats_cache \<Rightarrow> string \<Rightarrow> UnitType \<Rightarrow> Position \<Rightarrow> Unit" where
  "NewUnit unitStatsCache id' unitType pos =
     initializeStats unitStatsCache
       \<lparr>ID = id', Type = unitType,
        health = 0, maxHealth = 0, baseDamage = 0, baseArmor = 0,
        attackModifier = 0, armorModifier = 0, attackUpgrades = 0, armorUpgrades = 0,
        attackRange = 0, visionRange = 0,
        state = Idle, elevationLayer = Burrowed, position = pos, target = None,
        commands = make_chan 10, events = make_chan 10,
        ctx_done = False, shutdownOnce = False\<rparr>
       unitType"

section \<open>Channel operations\<close>

datatype panic = SendOnClosedChannel | CloseOfClosedChannel

text \<open>A send with no receiver waiting: it panics on a closed channel, appends when the
  buffer has room, and blocks otherwise.\<close>

datatype 'a send_result = Sent "'a chan" | SendBlocks | SendPanics

definition chan_send :: "'a chan \<Rightarrow> 'a \<Rightarrow> 'a send_result" where
  "chan_send c v =
     (if closed c then SendPanics
      else if length (buf c) < cap c then Sent (c\<lparr>buf := buf c @ [v]\<rparr>)
      else SendBlocks)"

definition chan_close :: "'a chan \<Rightarrow> panic + 'a chan" where
  "chan_close c = (if closed c then Inl CloseOfClosedChannel else Inr (c\<lparr>closed := True\<rparr>))"

section \<open>Command handlers and the unit's loop\<close>

text \<open>
  Units live in a heap, since an attack writes to the attacker and to its target, which
  may be the same unit. A handler either returns, or stays blocked in its send on the
  events channel (nothing in the package receives from it), or panics; each outcome
  carries the heap as the handler left it.
\<close>

type_synonym heap = "addr \<Rightarrow> Unit"

datatype 's outcome = Returned 's | Blocked 's | Panicked 's

fun outcome_heap :: "'s outcome \<Rightarrow> 's" where
  "outcome_heap (Returned h) = h"
| "outcome_heap (Blocked h) = h"
| "outcome_heap (Panicked h) = h"

definition send_event :: "heap \<Rightarrow> addr \<Rightarrow> UnitEvent \<Rightarrow> heap outcome" where
  "send_event h a ev =
     (case chan_send (events (h a)) ev of
        Sent c \<Rightarrow> Returned (h(a := (h a)\<lparr>events := c\<rparr>))
      | SendBlocks \<Rightarrow> Blocked h
      | SendPanics \<Rightarrow> Panicked h)"

definition handleMove :: "heap \<Rightarrow> addr \<Rightarrow> Command \<Rightarrow> nat \<Rightarrow> heap outcome" where
  "handleMove h a cmd now =
     (let h1 = h(a := SetState (h a) Moving);
          h2 = h1(a := SetPosition (h1 a) (Dest cmd));
          moveEvent = \<lparr>ev_Type = EventMoved, Source = Some a, ev_Target = None,
                       Timestamp = now\<rparr>
      in send_event h2 a moveEvent)"

definition handleAttack :: "heap \<Rightarrow> addr \<Rightarrow> Command \<Rightarrow> nat \<Rightarrow> heap outcome" where
  "handleAttack h a cmd now =
     (case cmd_Target cmd of
        None \<Rightarrow> Returned h
      | Some t \<Rightarrow>
          (let h1 = h(a := SetState (h a) Attacking);
               h2 = h1(a := SetTarget (h1 a) (Some t));
               dmg = CalculateDamageAgainst (h2 a) (h2 t);
               h3 = h2(t := fst (TakeDamage (h2 t) dmg));
               attackEvent = \<lparr>ev_Type = EventDamaged, Source = Some a, ev_Target = Some t,
                              Timestamp = now\<rparr>
           in send_event h3 a attackEvent))"

definition handleStop :: "heap \<Rightarrow> addr \<Rightarrow> Command \<Rightarrow> heap outcome" where
  "handleStop h a cmd =
     (let h1 = h(a := SetState (h a) Idle)
      in Returned (h1(a := SetTarget (h1 a) None)))"

definition handleHold :: "heap \<Rightarrow> addr \<Rightarrow> Command \<Rightarrow> heap outcome" where
  "handleHold h a cmd = Returned (h(a := SetState (h a) HoldingPosition))"

text \<open>The \<^verbatim>\<open>switch\<close> in the body of \<^verbatim>\<open>run\<close>.\<close>

definition dispatch :: "heap \<Rightarrow> addr \<Rightarrow> Command \<Rightarrow> nat \<Rightarrow> heap outcome" where
  "dispatch h a cmd now =
     (case cmd_Type cmd of
        CmdMove \<Rightarrow> handleMove h a cmd now
      | CmdAttack \<Rightarrow> handleAttack h a cmd now
      | CmdStop \<Rightarrow> handleStop h a cmd
      | CmdHold \<Rightarrow> handleHold h a cmd)"

text \<open>
  One pass of the \<^verbatim>\<open>for { select { ... } }\<close> of \<^verbatim>\<open>run\<close>. When both the receive and
  \<^verbatim>\<open>ctx.Done()\<close> are ready Go picks either; \<open>prefer_done\<close> is that pick. A receive from
  the closed, drained inbox yields \<^verbatim>\<open>ok = false\<close> and the loop returns.
\<close>

datatype 's iteration = Exited 's | Waits 's | Handled "'s outcome"

definition run_iteration :: "bool \<Rightarrow> heap \<Rightarrow> addr \<Rightarrow> nat \<Rightarrow> heap iteration" where
  "run_iteration prefer_done h a now =
     (let u = h a; c = commands u; recv_ready = (closed c \<or> buf c \<noteq> [])
      in if ctx_done u \<and> (prefer_done \<or> \<not> recv_ready) then Exited h
         else if \<not> recv_ready then Waits h
         else (case buf c of
                 [] \<Rightarrow> Exited h
               | cmd # rest \<Rightarrow>
                   Handled (dispatch (h(a := u\<lparr>commands := c\<lparr>buf := rest\<rparr>\<rparr>)) a cmd now)))"

section \<open>SendCommand and Shutdown\<close>

text \<open>
  While \<^verbatim>\<open>SendCommand\<close> is blocked in its second \<^verbatim>\<open>select\<close>, the first of three events
  wakes it: the loop receives a command and frees a slot, the context is cancelled, or
  the timer of \<^verbatim>\<open>time.After(100 * time.Millisecond)\<close> fires. The environment says when
  (in nanoseconds after the send blocked, \<open>None\<close> for never) the first two happen.
\<close>

datatype wait_event = RoomFreed | CtxCancelled | TimedOut

record wait_env =
  room_at :: "nat option"
  cancel_at :: "nat option"

definition Millisecond :: nat where
  "Millisecond = 1000000"

definition first_wake :: "wait_env \<Rightarrow> wait_event" where
  "first_wake e =
     (let timeout = 100 * Millisecond
      in case (room_at e, cancel_at e) of
           (Some r, Some c) \<Rightarrow>
             if r < timeout \<and> r \<le> c then RoomFreed
             else if c < timeout then CtxCancelled else TimedOut
         | (Some r, None) \<Rightarrow> if r < timeout then RoomFreed else TimedOut
         | (None, Some c) \<Rightarrow> if c < timeout then CtxCancelled else TimedOut
         | (None, None) \<Rightarrow> TimedOut)"

text \<open>
  \<^verbatim>\<open>SendCommand\<close> returns \<^verbatim>\<open>nil\<close> (\<open>None\<close>) or an error with its message, and the unit
  as the call leaves it. When the loop frees a slot for the blocked sender, the loop has
  taken the oldest command and the new one joins the queue (an unbuffered inbox hands
  it over directly).
\<close>

definition SendCommand :: "wait_env \<Rightarrow> Unit \<Rightarrow> Command \<Rightarrow> panic + (string option \<times> Unit)" where
  "SendCommand e u cmd =
     (if ctx_done u then Inr (Some ''unit is shutting down'', u)
      else case chan_send (commands u) cmd of
             Sent c \<Rightarrow> Inr (None, u\<lparr>commands := c\<rparr>)
           | SendPanics \<Rightarrow> Inl SendOnClosedChannel
           | SendBlocks \<Rightarrow>
               (case first_wake e of
                  RoomFreed \<Rightarrow>
                    Inr (None,
                         u\<lparr>commands :=
                             (case buf (commands u) of
                                [] \<Rightarrow> commands u
                              | x # xs \<Rightarrow> (commands u)\<lparr>buf := xs @ [cmd]\<rparr>)\<rparr>)
                | CtxCancelled \<Rightarrow> Inr (Some ''unit is shutting down'', u)
                | TimedOut \<Rightarrow> Inr (Some ''command queue full - backpressure'', u)))"

definition cancel :: "Unit \<Rightarrow> Unit" where
  "cancel u = u\<lparr>ctx_done := True\<rparr>"

text \<open>\<^verbatim>\<open>shutdownOnce.Do\<close> runs its function on the first call only.\<close>

definition Shutdown :: "Unit \<Rightarrow> panic + Unit" where
  "Shutdown u =
     (if shutdownOnce u then Inr u
      else (let u1 = cancel (u\<lparr>shutdownOnce := True\<rparr>)
            in case chan_close (commands u1) of
                 Inl p \<Rightarrow> Inl p
               | Inr c \<Rightarrow> Inr (u1\<lparr>commands := c\<rparr>)))"

fun Shutdown_times :: "nat \<Rightarrow> Unit \<Rightarrow> panic + Unit" where
  "Shutdown_times 0 u = Inr u"
| "Shutdown_times (Suc n) u =
     (case Shutdown u of Inl p \<Rightarrow> Inl p | Inr u' \<Rightarrow> Shutdown_times n u')"

text \<open>
  Only \<^verbatim>\<open>Shutdown\<close> cancels the context and closes the inbox, and it does both inside
  the \<^verbatim>\<open>sync.Once\<close>: in every unit the code builds and operates on, the three flags
  agree.
\<close>

definition lifecycle_ok :: "Unit \<Rightarrow> bool" where
  "lifecycle_ok u \<longleftrightarrow> ctx_done u = shutdownOnce u \<and> closed (commands u) = shutdownOnce u"

section \<open>UnitManager\<close>

text \<open>
  The registry \<^verbatim>\<open>units map[string]*types.Unit\<close>; a Go map value may be \<^verbatim>\<open>nil\<close>, which
  is \<open>None\<close> here. The other fields of the manager play no part in \<^verbatim>\<open>GetAllUnits\<close>.
\<close>

record UnitManager =
  units :: "(string \<rightharpoonup> addr) option"
  isRunning :: bool

text \<open>The body of \<^verbatim>\<open>GetAllUnits\<close> is the single statement \<^verbatim>\<open>return nil\<close>; the copying
  loop above it is commented out.\<close>

definition GetAllUnits :: "UnitManager \<Rightarrow> (string \<rightharpoonup> addr) option" where
  "GetAllUnits um = None"

section \<open>ResourceManager\<close>

text \<open>
  Modelled from the spec: \<^verbatim>\<open>types.Resource\<close>, whose declaration is not in the sources
  at hand. The spec's ledger entry has a name (the key of the map), \<^verbatim>\<open>current\<close>,
  \<^verbatim>\<open>max\<close> and \<^verbatim>\<open>lowThreshold\<close>.
\<close>

record Resource =
  current :: go_int
  res_max :: go_int
  lowThreshold :: go_int

datatype TransactionType = Allocate | Reserve | Release | Transfer | Batch

record TransactionResult =
  Success :: bool
  Error :: "string option"
  AllocatedResources :: "string \<rightharpoonup> go_int"
  ReservationID :: string
  tr_Timestamp :: nat

record ResourceTransaction =
  tx_ID :: string
  tx_Type :: TransactionType
  Resources :: "string \<rightharpoonup> go_int"
  Timeout :: nat
  Priority :: go_int
  Requester :: string

text \<open>The ledger and the transaction channel of the manager; its other fields are not
  touched by the functions embedded here.\<close>

record ResourceManager =
  resources :: "string \<rightharpoonup> Resource"
  transactions :: "ResourceTransaction chan"

text \<open>
  \<^verbatim>\<open>AllocateResources\<close> makes the response channel (capacity 1) and returns it; the
  steps that would build a transaction and submit it are comments. It returns the
  manager as it leaves it and the channel.
\<close>

definition AllocateResources ::
  "ResourceManager \<Rightarrow> string \<Rightarrow> (string \<rightharpoonup> go_int) \<Rightarrow> nat
     \<Rightarrow> ResourceManager \<times> TransactionResult chan" where
  "AllocateResources rm requester rs timeout = (let response = make_chan 1 in (rm, response))"

text \<open>The body of \<^verbatim>\<open>transactionProcessor\<close> holds comments only: it returns at once.\<close>

definition transactionProcessor :: "ResourceManager \<Rightarrow> ResourceManager" where
  "transactionProcessor rm = rm"

section \<open>Example data\<close>

text \<open>A stats table with the health, damage and armor the package's tests expect for
  the Marine, the Zergling and the Zealot; its other fields are example values.\<close>

definition test_stats :: stats_cache where
  "test_stats =
     [''Marine'' \<mapsto> \<lparr>MaxHealth = 40, BaseDamage = 6, BaseArmor = 0, ArmorModifier = 1,
                     AttackModifier = 1, AttackRange = 4, VisionRange = 7,
                     ElevationLayer_name = ''Ground''\<rparr>,
      ''Zergling'' \<mapsto> \<lparr>MaxHealth = 35, BaseDamage = 5, BaseArmor = 0, ArmorModifier = 1,
                       AttackModifier = 1, AttackRange = 1, VisionRange = 5,
                       ElevationLayer_name = ''Ground''\<rparr>,
      ''Zealot'' \<mapsto> \<lparr>MaxHealth = 100, BaseDamage = 16, BaseArmor = 1, ArmorModifier = 1,
                     AttackModifier = 1, AttackRange = 1, VisionRange = 7,
                     ElevationLayer_name = ''Ground''\<rparr>]"

definition origin :: Position where
  "origin = \<lparr>X = 0, Y = 0\<rparr>"

definition marine :: Unit where
  "marine = NewUnit test_stats ''marine-1'' Marine origin"

definition zergling :: Unit where
  "zergling = NewUnit test_stats ''zergling-1'' Zergling origin"

text \<open>A heap with the Marine at address 0 and the Zergling at address 1, and the
  commands used below.\<close>

definition battlefield :: heap where
  "battlefield = (\<lambda>_. marine)(1 := zergling)"

definition attack_cmd :: "addr option \<Rightarrow> Command" where
  "attack_cmd t = \<lparr>cmd_Type = CmdAttack, cmd_Target = t, Dest = origin\<rparr>"

definition move_cmd :: "Position \<Rightarrow> Command" where
  "move_cmd p = \<lparr>cmd_Type = CmdMove, cmd_Target = None, Dest = p\<rparr>"

definition dead_marine :: Unit where
  "dead_marine = SetState marine Dead"

definition stop_cmd :: Command where
  "stop_cmd = \<lparr>cmd_Type = CmdStop, cmd_Target = None, Dest = origin\<rparr>"

definition busy_marine :: Unit where
  "busy_marine = marine\<lparr>commands := (make_chan 10)\<lparr>buf := replicate 10 stop_cmd\<rparr>\<rparr>"

definition quiet :: wait_env where
  "quiet = \<lparr>room_at = None, cancel_at = None\<rparr>"

definition zealot :: Unit where
  "zealot = NewUnit test_stats ''zealot-1'' Zealot origin"

text \<open>An environment in which the loop takes a command 5 microseconds into the wait.\<close>

definition draining :: wait_env where
  "draining = \<lparr>room_at = Some 5000, cancel_at = None\<rparr>"

definition registry :: UnitManager where
  "registry = \<lparr>units = Some [''marine-1'' \<mapsto> 0, ''zergling-1'' \<mapsto> 1], isRunning = True\<rparr>"

definition ledger :: ResourceManager where
  "ledger =
     \<lparr>resources = [''minerals'' \<mapsto> \<lparr>current = 10, res_max = 100, lowThreshold = 20\<rparr>],
      transactions = make_chan 100\<rparr>"

section \<open>Construction of units\<close>

lemmas UnitType_defs =
  SCV_def Marine_def Firebat_def Medic_def Vulture_def SiegeTank_def Goliath_def
  Wraith_def DropShip_def Valkyrie_def ScienceVessel_def Battlecruiser_def Drone_def
  Overlord_def Zergling_def Hydralisk_def Lurker_def Mutalisk_def Guardian_def
  Devourer_def Queen_def Ultralisk_def Defiler_def Probe_def Zealot_def Dragoon_def
  Templar_def DarkTemplar_def Shuttle_def Reaver_def Observer_def Corsair_def
  Carrier_def Arbiter_def

lemma NewUnit_fields:
  "ID (NewUnit sc i ut p) = i" "Type (NewUnit sc i ut p) = ut"
  "state (NewUnit sc i ut p) = Idle" "position (NewUnit sc i ut p) = p"
  "target (NewUnit sc i ut p) = None"
  "health (NewUnit sc i ut p) = maxHealth (NewUnit sc i ut p)"
  "attackUpgrades (NewUnit sc i ut p) = 0" "armorUpgrades (NewUnit sc i ut p) = 0"
  "commands (NewUnit sc i ut p) = make_chan 10" "events (NewUnit sc i ut p) = make_chan 10"
  "ctx_done (NewUnit sc i ut p) = False" "shutdownOnce (NewUnit sc i ut p) = False"
  by (simp_all add: NewUnit_def initializeStats_def Let_def)

lemma NewUnit_stats:
  "maxHealth (NewUnit sc i ut p) = MaxHealth (case sc (UnitType_String ut) of Some s \<Rightarrow> s | None \<Rightarrow> fallback_stats)"
  "baseDamage (NewUnit sc i ut p) = BaseDamage (case sc (UnitType_String ut) of Some s \<Rightarrow> s | None \<Rightarrow> fallback_stats)"
  "baseArmor (NewUnit sc i ut p) = BaseArmor (case sc (UnitType_String ut) of Some s \<Rightarrow> s | None \<Rightarrow> fallback_stats)"
  "attackRange (NewUnit sc i ut p) = AttackRange (case sc (UnitType_String ut) of Some s \<Rightarrow> s | None \<Rightarrow> fallback_stats)"
  "visionRange (NewUnit sc i ut p) = VisionRange (case sc (UnitType_String ut) of Some s \<Rightarrow> s | None \<Rightarrow> fallback_stats)"
  by (simp_all add: NewUnit_def initializeStats_def Let_def)

lemma NewUnit_elevation_fallback:
  "sc (UnitType_String ut) = None \<Longrightarrow> elevationLayer (NewUnit sc i ut p) = Ground"
  by (simp add: NewUnit_def initializeStats_def Let_def fallback_stats_def)

text \<open>
  Claim C9. For every stats table, id, unit type and position, the unit \<^verbatim>\<open>NewUnit\<close>
  returns is Idle, at full health, without a target and without upgrades, so that
  \<^verbatim>\<open>GetDamage\<close> and \<^verbatim>\<open>GetArmor\<close> return the base damage and base armor, which are the
  table's for a type the table lists. For a type the table does not list the unit has
  maxHealth 50, baseDamage 5, baseArmor 0, attackRange 4, visionRange 7 and elevation
  Ground.
\<close>

theorem NewUnit_initial:
  "state (NewUnit sc i ut p) = Idle \<and>
   health (NewUnit sc i ut p) = maxHealth (NewUnit sc i ut p) \<and>
   target (NewUnit sc i ut p) = None \<and>
   attackUpgrades (NewUnit sc i ut p) = 0 \<and>
   armorUpgrades (NewUnit sc i ut p) = 0 \<and>
   GetDamage (NewUnit sc i ut p) = baseDamage (NewUnit sc i ut p) \<and>
   GetArmor (NewUnit sc i ut p) = baseArmor (NewUnit sc i ut p) \<and>
   ID (NewUnit sc i ut p) = i \<and> Type (NewUnit sc i ut p) = ut \<and>
   position (NewUnit sc i ut p) = p \<and>
   (\<forall>s. sc (UnitType_String ut) = Some s \<longrightarrow>
      maxHealth (NewUnit sc i ut p) = MaxHealth s \<and>
      GetDamage (NewUnit sc i ut p) = BaseDamage s \<and>
      GetArmor (NewUnit sc i ut p) = BaseArmor s) \<and>
   (sc (UnitType_String ut) = None \<longrightarrow>
      maxHealth (NewUnit sc i ut p) = 50 \<and>
      baseDamage (NewUnit sc i ut p) = 5 \<and>
      baseArmor (NewUnit sc i ut p) = 0 \<and>
      attackRange (NewUnit sc i ut p) = 4 \<and>
      visionRange (NewUnit sc i ut p) = 7 \<and>
      elevationLayer (NewUnit sc i ut p) = Ground)"
  by (simp add: NewUnit_fields NewUnit_stats NewUnit_elevation_fallback GetDamage_def GetArmor_def
      fallback_stats_def)

lemma UnitType_String_examples:
  "UnitType_String Marine = ''Marine''" "UnitType_String Probe = ''Probe''"
  "UnitType_String 999 = ''UnitType(999)''" "UnitType_String Zergling = ''Zergling''"
  by code_simp+

theorem NewUnit_initial_witness:
  "test_stats (UnitType_String Marine) \<noteq> None \<and>
   GetDamage (NewUnit test_stats ''marine-1'' Marine origin) = 6 \<and>
   health (NewUnit test_stats ''marine-1'' Marine origin) = 40 \<and>
   test_stats (UnitType_String Probe) = None \<and>
   maxHealth (NewUnit test_stats ''probe-1'' Probe origin) = 50 \<and>
   GetDamage (NewUnit test_stats ''probe-1'' Probe origin) = 5 \<and>
   elevationLayer (NewUnit test_stats ''probe-1'' Probe origin) = Ground \<and>
   test_stats (UnitType_String 999) = None \<and>
   health (NewUnit test_stats ''unknown'' 999 origin) = 50"
proof -
  have m: "test_stats (UnitType_String Marine) =
      Some \<lparr>MaxHealth = 40, BaseDamage = 6, BaseArmor = 0, ArmorModifier = 1,
            AttackModifier = 1, AttackRange = 4, VisionRange = 7,
            ElevationLayer_name = ''Ground''\<rparr>"
    by (simp add: UnitType_String_examples test_stats_def)
  have p: "test_stats (UnitType_String Probe) = None"
    by (simp add: UnitType_String_examples test_stats_def)
  have q: "test_stats (UnitType_String 999) = None"
    by (simp add: UnitType_String_examples test_stats_def)
  show ?thesis
    using NewUnit_initial [of test_stats "''marine-1''" Marine origin]
      NewUnit_initial [of test_stats "''probe-1''" Probe origin]
      NewUnit_initial [of test_stats "''unknown''" 999 origin] m p q
    by auto
qed

section \<open>Health under damage\<close>

lemma sint_sub_no_overflow:
  fixes a b :: go_int
  assumes "- (2 ^ 63) \<le> sint a - sint b" and "sint a - sint b < 2 ^ 63"
  shows "sint (a - b) = sint a - sint b"
  using assms by (simp add: sint_word_diff signed_take_bit_int_eq_self)


lemma TakeDamage_health:
  "health (fst (TakeDamage u a)) = (if health u - a <s 0 then 0 else health u - a)"
  by (simp add: TakeDamage_def Let_def)

lemma TakeDamage_returns_health: "snd (TakeDamage u a) = health (fst (TakeDamage u a))"
  by (simp add: TakeDamage_def Let_def)










section \<open>Damage calculation\<close>

lemma sint_of_int_in_range:
  assumes "in_int64 k"
  shows "sint (word_of_int k :: go_int) = k"
  using assms by (simp add: in_int64_def sint_sbintrunc' signed_take_bit_int_eq_self)

lemma GetDamage_of_int: "GetDamage u = word_of_int (effective_damage u)"
  by (simp add: GetDamage_def effective_damage_def)

lemma GetArmor_of_int: "GetArmor u = word_of_int (effective_armor u)"
  by (simp add: GetArmor_def effective_armor_def)

lemma CalculateDamageAgainst_eq:
  "CalculateDamageAgainst u tgt =
     (if GetDamage u - GetArmor tgt <s 0 then 0 else GetDamage u - GetArmor tgt)"
  by (simp add: CalculateDamageAgainst_def Let_def)

lemma CalculateDamageAgainst_nonneg: "0 \<le> sint (CalculateDamageAgainst u tgt)"
  by (simp add: CalculateDamageAgainst_eq word_sless_alt)

lemma NewUnit_effective:
  "effective_damage (NewUnit sc i ut p) = sint (baseDamage (NewUnit sc i ut p))"
  "effective_armor (NewUnit sc i ut p) = sint (baseArmor (NewUnit sc i ut p))"
  by (simp_all add: effective_damage_def effective_armor_def NewUnit_fields)

lemma NewUnit_stats_bounded:
  assumes "\<And>s. s \<in> ran sc \<Longrightarrow>
             \<bar>sint (BaseDamage s)\<bar> < 2 ^ 62 \<and> \<bar>sint (BaseArmor s)\<bar> < 2 ^ 62"
  shows "\<bar>sint (baseDamage (NewUnit sc i ut p))\<bar> < 2 ^ 62"
    and "\<bar>sint (baseArmor (NewUnit sc i ut p))\<bar> < 2 ^ 62"
proof -
  show "\<bar>sint (baseDamage (NewUnit sc i ut p))\<bar> < 2 ^ 62"
  proof (cases "sc (UnitType_String ut)")
    case None
    then show ?thesis by (simp add: NewUnit_stats fallback_stats_def)
  next
    case (Some s)
    then have "s \<in> ran sc" by (auto simp: ran_def)
    with assms Some show ?thesis by (simp add: NewUnit_stats)
  qed
  show "\<bar>sint (baseArmor (NewUnit sc i ut p))\<bar> < 2 ^ 62"
  proof (cases "sc (UnitType_String ut)")
    case None
    then show ?thesis by (simp add: NewUnit_stats fallback_stats_def)
  next
    case (Some s)
    then have "s \<in> ran sc" by (auto simp: ran_def)
    with assms Some show ?thesis by (simp add: NewUnit_stats)
  qed
qed

lemma NewUnit_in_range:
  assumes "\<And>s. s \<in> ran sc \<Longrightarrow>
             \<bar>sint (BaseDamage s)\<bar> < 2 ^ 62 \<and> \<bar>sint (BaseArmor s)\<bar> < 2 ^ 62"
  shows "in_int64 (effective_damage (NewUnit sc i ut p)) \<and>
         in_int64 (effective_armor (NewUnit sc j vt q)) \<and>
         in_int64 (effective_damage (NewUnit sc i ut p) - effective_armor (NewUnit sc j vt q))"
proof -
  have "\<bar>sint (baseDamage (NewUnit sc i ut p))\<bar> < 2 ^ 62"
    and "\<bar>sint (baseArmor (NewUnit sc j vt q))\<bar> < 2 ^ 62"
    using NewUnit_stats_bounded [OF assms] by blast+
  then show ?thesis
    unfolding NewUnit_effective in_int64_def by simp linarith
qed

text \<open>
  Claim C3. \<^verbatim>\<open>CalculateDamageAgainst\<close> never returns a negative value. For every
  attacker and target whose effective damage, effective armor and difference are values
  of Go's \<^verbatim>\<open>int\<close> (the range in which 64-bit and integer arithmetic agree; every unit
  built from a table of statistics below \<open>2^62\<close> in size is in it, see
  \<open>NewUnit_in_range\<close>), \<^verbatim>\<open>GetDamage\<close> and \<^verbatim>\<open>GetArmor\<close> return base plus modifier
  times upgrades, the result is \<open>max 0 (damage - armor)\<close>, and it is exactly 0 when the
  armor is at least the damage.
\<close>

theorem CalculateDamageAgainst_max:
  "0 \<le> sint (CalculateDamageAgainst u tgt) \<and>
   (in_int64 (effective_damage u) \<and> in_int64 (effective_armor tgt) \<and>
    in_int64 (effective_damage u - effective_armor tgt) \<longrightarrow>
      sint (GetDamage u) = effective_damage u \<and>
      sint (GetArmor tgt) = effective_armor tgt \<and>
      sint (CalculateDamageAgainst u tgt) = max 0 (effective_damage u - effective_armor tgt) \<and>
      (effective_damage u \<le> effective_armor tgt \<longrightarrow> CalculateDamageAgainst u tgt = 0))"
proof (intro conjI impI)
  show "0 \<le> sint (CalculateDamageAgainst u tgt)"
    by (rule CalculateDamageAgainst_nonneg)
next
  assume r: "in_int64 (effective_damage u) \<and> in_int64 (effective_armor tgt) \<and>
    in_int64 (effective_damage u - effective_armor tgt)"
  show d: "sint (GetDamage u) = effective_damage u"
    using r by (simp add: GetDamage_of_int sint_of_int_in_range)
  show a: "sint (GetArmor tgt) = effective_armor tgt"
    using r by (simp add: GetArmor_of_int sint_of_int_in_range)
  have diff: "sint (GetDamage u - GetArmor tgt) = effective_damage u - effective_armor tgt"
    using r d a by (intro sint_sub_no_overflow [THEN trans]) (simp_all add: in_int64_def)
  show "sint (CalculateDamageAgainst u tgt) = max 0 (effective_damage u - effective_armor tgt)"
    using diff by (simp add: CalculateDamageAgainst_eq word_sless_alt)
  show "CalculateDamageAgainst u tgt = 0" if "effective_damage u \<le> effective_armor tgt"
  proof (cases "GetDamage u - GetArmor tgt <s 0")
    case True
    then show ?thesis by (simp add: CalculateDamageAgainst_eq)
  next
    case False
    then have "sint (GetDamage u - GetArmor tgt) = 0"
      using diff that by (simp add: word_sless_alt)
    then have "GetDamage u - GetArmor tgt = 0"
      by (metis signed_word_eqI sint_0)
    then show ?thesis by (simp add: CalculateDamageAgainst_eq)
  qed
qed


lemma marine_combat: "baseDamage marine = 6" "attackModifier marine = 1" "attackUpgrades marine = 0"
  "baseArmor marine = 0" "armorModifier marine = 1" "armorUpgrades marine = 0"
  by (simp_all add: marine_def NewUnit_def initializeStats_def UnitType_String_def
      unitTypeNames_def UnitType_defs test_stats_def)

lemma zergling_combat: "baseDamage zergling = 5" "attackModifier zergling = 1"
  "attackUpgrades zergling = 0" "baseArmor zergling = 0" "armorModifier zergling = 1"
  "armorUpgrades zergling = 0" "health zergling = 35" "maxHealth zergling = 35"
  by (simp_all add: zergling_def NewUnit_def initializeStats_def UnitType_String_def
      unitTypeNames_def UnitType_defs test_stats_def)

lemma zealot_combat: "baseArmor zealot = 1" "armorModifier zealot = 1" "armorUpgrades zealot = 0"
  by (simp_all add: zealot_def NewUnit_def initializeStats_def UnitType_String_def
      unitTypeNames_def UnitType_defs test_stats_def)

theorem CalculateDamageAgainst_max_witness:
  "in_int64 (effective_damage marine) \<and> in_int64 (effective_armor zergling) \<and>
   in_int64 (effective_damage marine - effective_armor zergling) \<and>
   sint (CalculateDamageAgainst marine zergling) = 6 \<and>
   in_int64 (effective_armor zealot) \<and>
   in_int64 (effective_damage marine - effective_armor zealot) \<and>
   sint (CalculateDamageAgainst marine zealot) = 5 \<and>
   effective_damage zergling \<le> effective_armor (marine\<lparr>baseArmor := 7\<rparr>) \<and>
   CalculateDamageAgainst zergling (marine\<lparr>baseArmor := 7\<rparr>) = 0"
proof -
  have d: "effective_damage marine = 6" and a: "effective_armor zergling = 0"
    and z: "effective_armor zealot = 1"
    by (simp_all add: effective_damage_def effective_armor_def marine_combat zergling_combat
        zealot_combat)
  have d': "effective_damage zergling = 5" and a': "effective_armor (marine\<lparr>baseArmor := 7\<rparr>) = 7"
    by (simp_all add: effective_damage_def effective_armor_def marine_combat zergling_combat)
  have r: "in_int64 6" "in_int64 0" "in_int64 5" "in_int64 7" "in_int64 (- 2)" "in_int64 1"
    by (simp_all add: in_int64_def)
  show ?thesis
    using CalculateDamageAgainst_max [of marine zergling]
      CalculateDamageAgainst_max [of marine zealot]
      CalculateDamageAgainst_max [of zergling "marine\<lparr>baseArmor := 7\<rparr>"]
    by (simp add: d a d' a' z r)
qed

section \<open>Command handlers\<close>

lemma send_event_fields:
  "state (outcome_heap (send_event h a ev) b) = state (h b)"
  "target (outcome_heap (send_event h a ev) b) = target (h b)"
  "health (outcome_heap (send_event h a ev) b) = health (h b)"
  "position (outcome_heap (send_event h a ev) b) = position (h b)"
  by (simp_all add: send_event_def split: send_result.splits)

lemma CalculateDamageAgainst_cong:
  assumes "baseDamage u' = baseDamage u" "attackModifier u' = attackModifier u"
    "attackUpgrades u' = attackUpgrades u" "baseArmor t' = baseArmor t"
    "armorModifier t' = armorModifier t" "armorUpgrades t' = armorUpgrades t"
  shows "CalculateDamageAgainst u' t' = CalculateDamageAgainst u t"
  using assms by (simp add: CalculateDamageAgainst_def GetDamage_def GetArmor_def)

lemma CalculateDamageAgainst_ignores:
  "CalculateDamageAgainst (u\<lparr>state := s, target := x\<rparr>) tgt = CalculateDamageAgainst u tgt"
  "CalculateDamageAgainst u (tgt\<lparr>state := s, target := x\<rparr>) = CalculateDamageAgainst u tgt"
  by (rule CalculateDamageAgainst_cong; simp)+

text \<open>
  Claim C8. An attack command without a target makes \<^verbatim>\<open>handleAttack\<close> return with the
  heap untouched: no unit's state, target or health changes, and nothing fails. With a
  target the attacker is Attacking afterwards, its target is the commanded unit, and the
  target's health is what \<^verbatim>\<open>TakeDamage\<close> returns for the damage calculated against it,
  also when the send of the event then blocks and when a unit attacks itself.
\<close>

theorem handleAttack_effect:
  "(cmd_Target cmd = None \<longrightarrow> handleAttack h a cmd now = Returned h) \<and>
   (\<forall>t. cmd_Target cmd = Some t \<longrightarrow>
      state (outcome_heap (handleAttack h a cmd now) a) = Attacking \<and>
      target (outcome_heap (handleAttack h a cmd now) a) = Some t \<and>
      health (outcome_heap (handleAttack h a cmd now) t) =
        snd (TakeDamage (h t) (CalculateDamageAgainst (h a) (h t))))"
proof (intro conjI allI impI)
  assume "cmd_Target cmd = None"
  then show "handleAttack h a cmd now = Returned h"
    by (simp add: handleAttack_def)
next
  fix t assume t: "cmd_Target cmd = Some t"
  show "state (outcome_heap (handleAttack h a cmd now) a) = Attacking"
    using t by (simp add: handleAttack_def Let_def send_event_fields SetState_def SetTarget_def
        TakeDamage_def)
  show "target (outcome_heap (handleAttack h a cmd now) a) = Some t"
    using t by (simp add: handleAttack_def Let_def send_event_fields SetState_def SetTarget_def
        TakeDamage_def)
  show "health (outcome_heap (handleAttack h a cmd now) t) =
        snd (TakeDamage (h t) (CalculateDamageAgainst (h a) (h t)))"
    using t by (simp add: handleAttack_def Let_def send_event_fields TakeDamage_def
        SetState_def SetTarget_def CalculateDamageAgainst_ignores)
qed

theorem handleAttack_effect_witness:
  "cmd_Target (attack_cmd None) = None \<and>
   handleAttack battlefield 0 (attack_cmd None) 0 = Returned battlefield \<and>
   cmd_Target (attack_cmd (Some 1)) = Some 1 \<and>
   state (outcome_heap (handleAttack battlefield 0 (attack_cmd (Some 1)) 0) 0) = Attacking \<and>
   target (outcome_heap (handleAttack battlefield 0 (attack_cmd (Some 1)) 0) 0) = Some 1 \<and>
   health (outcome_heap (handleAttack battlefield 0 (attack_cmd (Some 1)) 0) 1) = 29"
proof -
  have d: "CalculateDamageAgainst (battlefield 0) (battlefield 1) = 6"
    by (simp add: battlefield_def CalculateDamageAgainst_eq GetDamage_def GetArmor_def
        marine_combat zergling_combat word_sless_alt)
  have t: "snd (TakeDamage (battlefield 1) 6) = 29"
    by (simp add: battlefield_def TakeDamage_returns_health TakeDamage_health zergling_combat
        word_sless_alt)
  show ?thesis
    using handleAttack_effect [of "attack_cmd None" battlefield 0 0]
      handleAttack_effect [of "attack_cmd (Some 1)" battlefield 0 0] d t
    by (simp add: attack_cmd_def)
qed

text \<open>Whatever the unit's state was, Dead included, each handler leaves the state it
  names.\<close>

lemma handlers_overwrite_state:
  "state (outcome_heap (handleMove h a cmd now) a) = Moving"
  "state (outcome_heap (handleStop h a cmd) a) = Idle"
  "state (outcome_heap (handleHold h a cmd) a) = HoldingPosition"
  by (simp_all add: handleMove_def handleStop_def handleHold_def Let_def send_event_fields
      SetState_def SetPosition_def SetTarget_def)

text \<open>
  Claim C2 at a Dead unit. \<^verbatim>\<open>SendCommand\<close> accepts a move command for a Marine whose
  state is Dead, and the loop's next pass hands it to \<^verbatim>\<open>handleMove\<close>, which sets the
  state to Moving and the position to the destination: no handler looks at the state.
\<close>

theorem dead_unit_obeys_move:
  "state dead_marine = Dead \<and>
   SendCommand e dead_marine (move_cmd \<lparr>X = 1, Y = 1\<rparr>)
     = Inr (None, dead_marine\<lparr>commands := (make_chan 10)\<lparr>buf := [move_cmd \<lparr>X = 1, Y = 1\<rparr>]\<rparr>\<rparr>) \<and>
   (\<exists>h'. run_iteration False
            (\<lambda>_. dead_marine\<lparr>commands := (make_chan 10)\<lparr>buf := [move_cmd \<lparr>X = 1, Y = 1\<rparr>]\<rparr>\<rparr>) 0 now
          = Handled (Returned h') \<and> state (h' 0) = Moving \<and> position (h' 0) = \<lparr>X = 1, Y = 1\<rparr>)"
  by (simp add: dead_marine_def SetState_def SetPosition_def marine_def NewUnit_fields SendCommand_def
      chan_send_def make_chan_def run_iteration_def dispatch_def move_cmd_def handleMove_def
      send_event_def Let_def)

section \<open>Lifecycle: Shutdown and SendCommand\<close>

lemma NewUnit_lifecycle_ok: "lifecycle_ok (NewUnit sc i ut p)"
  by (simp add: lifecycle_ok_def NewUnit_fields make_chan_def)

lemma Shutdown_cases:
  "shutdownOnce u \<Longrightarrow> Shutdown u = Inr u"
  "\<not> shutdownOnce u \<Longrightarrow> \<not> closed (commands u) \<Longrightarrow>
     Shutdown u = Inr (u\<lparr>commands := (commands u)\<lparr>closed := True\<rparr>, ctx_done := True, shutdownOnce := True\<rparr>)"
  "\<not> shutdownOnce u \<Longrightarrow> closed (commands u) \<Longrightarrow> Shutdown u = Inl CloseOfClosedChannel"
  by (simp_all add: Shutdown_def cancel_def chan_close_def Let_def)

lemma Shutdown_ok:
  assumes "lifecycle_ok u"
  obtains u' where "Shutdown u = Inr u'" "ctx_done u'" "closed (commands u')" "shutdownOnce u'"
    "lifecycle_ok u'"
proof (cases "shutdownOnce u")
  case True
  with assms that [of u] show ?thesis
    by (simp add: Shutdown_cases lifecycle_ok_def)
next
  case False
  with assms have "\<not> closed (commands u)"
    by (simp add: lifecycle_ok_def)
  with False that show ?thesis
    by (simp add: Shutdown_cases lifecycle_ok_def)
qed

lemma Shutdown_times_done:
  "shutdownOnce u \<Longrightarrow> Shutdown_times n u = Inr u"
  by (induction n) (simp_all add: Shutdown_cases)

text \<open>
  Claim C6. On a unit whose lifecycle flags agree (every unit built by \<^verbatim>\<open>NewUnit\<close> and
  operated on by the code), calling \<^verbatim>\<open>Shutdown\<close> any number \<open>n \<ge> 1\<close> of times in a row
  never panics and ends in the very state one call ends in: context cancelled, inbox
  closed once, the once-flag set.
\<close>

theorem Shutdown_idempotent:
  assumes "lifecycle_ok u" and "1 \<le> n"
  shows "\<exists>u'. Shutdown u = Inr u' \<and> Shutdown_times n u = Inr u' \<and>
              ctx_done u' \<and> closed (commands u') \<and> shutdownOnce u'"
proof -
  obtain u' where u': "Shutdown u = Inr u'" "ctx_done u'" "closed (commands u')" "shutdownOnce u'"
    using assms(1) by (rule Shutdown_ok)
  obtain m where n: "n = Suc m"
    using assms(2) by (cases n) simp_all
  have "Shutdown_times n u = Shutdown_times m u'"
    by (simp add: n u'(1))
  also have "\<dots> = Inr u'"
    using u'(4) by (rule Shutdown_times_done)
  finally show ?thesis
    using u' by blast
qed

theorem Shutdown_idempotent_witness:
  "lifecycle_ok marine \<and> (1::nat) \<le> 3 \<and>
   Shutdown_times 3 marine = Shutdown marine \<and>
   Shutdown marine = Inr (marine\<lparr>commands := (make_chan 10)\<lparr>closed := True\<rparr>,
                                  ctx_done := True, shutdownOnce := True\<rparr>)"
proof -
  have ok: "lifecycle_ok marine"
    unfolding marine_def by (rule NewUnit_lifecycle_ok)
  have s: "Shutdown marine = Inr (marine\<lparr>commands := (make_chan 10)\<lparr>closed := True\<rparr>,
                                  ctx_done := True, shutdownOnce := True\<rparr>)"
    by (simp add: Shutdown_cases marine_def NewUnit_fields make_chan_def)
  show ?thesis
    using Shutdown_idempotent [OF ok, of 3] ok s by auto
qed




lemma marine_lifecycle: "ctx_done marine = False" "shutdownOnce marine = False"
  "commands marine = make_chan 10"
  by (simp_all add: marine_def NewUnit_fields)


lemma SendCommand_only_commands:
  assumes "SendCommand e u cmd = Inr (err, u')"
  shows "u' = u\<lparr>commands := commands u'\<rparr>" and "err \<noteq> None \<Longrightarrow> u' = u"
    and "err = None \<Longrightarrow> 0 < cap (commands u) \<Longrightarrow>
           buf (commands u') \<noteq> [] \<and> last (buf (commands u')) = cmd"
  using assms
  by (auto simp: SendCommand_def chan_send_def
      split: if_splits wait_event.splits list.splits)

lemma SendCommand_error_unchanged:
  assumes "SendCommand e u cmd = Inr (err, u')" and "err \<noteq> None"
  shows "u' = u"
  using assms
  by (auto simp: SendCommand_def chan_send_def split: if_splits wait_event.splits)

lemma SendCommand_room:
  assumes "SendCommand e u cmd = Inr (None, u')"
    and "length (buf (commands u)) < cap (commands u)"
  shows "u' = u\<lparr>commands := (commands u)\<lparr>buf := buf (commands u) @ [cmd]\<rparr>\<rparr>"
  using assms
  by (auto simp: SendCommand_def chan_send_def split: if_splits)

lemma SendCommand_full:
  assumes "SendCommand e u cmd = Inr (None, u')"
    and "\<not> length (buf (commands u)) < cap (commands u)"
  shows "first_wake e = RoomFreed"
    and "u' = u\<lparr>commands := (commands u)\<lparr>buf := tl (buf (commands u) @ [cmd])\<rparr>\<rparr>"
proof -
  from assms have nd: "\<not> ctx_done u" and nc: "\<not> closed (commands u)"
    by (auto simp: SendCommand_def chan_send_def split: if_splits)
  with assms show w: "first_wake e = RoomFreed"
    by (cases "first_wake e") (simp_all add: SendCommand_def chan_send_def)
  from assms nd nc w show "u' = u\<lparr>commands := (commands u)\<lparr>buf := tl (buf (commands u) @ [cmd])\<rparr>\<rparr>"
    by (cases "buf (commands u)") (simp_all add: SendCommand_def chan_send_def)
qed

text \<open>
  Claim C10. Whenever \<^verbatim>\<open>SendCommand\<close> returns, with \<^verbatim>\<open>nil\<close> or with an error, the unit
  differs from the unit before the call in the queue of its inbox at most: health,
  maxHealth, state, position, target, damage and armor are the same, and so are the
  inbox's capacity and its closed flag. With an error the unit is unchanged altogether.
  With \<^verbatim>\<open>nil\<close> and room in the inbox, the new unit is the old one with the command
  appended to the queue. With \<^verbatim>\<open>nil\<close> and a full inbox, the loop took the oldest entry
  during the wait and the queue is the rest followed by the command.
\<close>

theorem SendCommand_frame:
  assumes "SendCommand e u cmd = Inr (err, u')"
  shows "health u' = health u \<and> maxHealth u' = maxHealth u \<and> state u' = state u \<and>
         position u' = position u \<and> target u' = target u \<and>
         GetDamage u' = GetDamage u \<and> GetArmor u' = GetArmor u \<and>
         u' = u\<lparr>commands := commands u'\<rparr> \<and>
         cap (commands u') = cap (commands u) \<and>
         closed (commands u') = closed (commands u) \<and>
         (err \<noteq> None \<longrightarrow> u' = u) \<and>
         (err = None \<and> length (buf (commands u)) < cap (commands u) \<longrightarrow>
            u' = u\<lparr>commands := (commands u)\<lparr>buf := buf (commands u) @ [cmd]\<rparr>\<rparr>) \<and>
         (err = None \<and> \<not> length (buf (commands u)) < cap (commands u) \<longrightarrow>
            first_wake e = RoomFreed \<and>
            u' = u\<lparr>commands := (commands u)\<lparr>buf := tl (buf (commands u) @ [cmd])\<rparr>\<rparr>) \<and>
         (err = None \<and> 0 < cap (commands u) \<longrightarrow>
            buf (commands u') \<noteq> [] \<and> last (buf (commands u')) = cmd)"
proof -
  have eq: "u' = u\<lparr>commands := commands u'\<rparr>"
    using assms by (rule SendCommand_only_commands(1))
  have fields: "health u' = health u" "maxHealth u' = maxHealth u" "state u' = state u"
    "position u' = position u" "target u' = target u"
    "GetDamage u' = GetDamage u" "GetArmor u' = GetArmor u"
    by (subst eq, simp add: GetDamage_def GetArmor_def)+
  have err: "err \<noteq> None \<longrightarrow> u' = u"
    using assms by (auto dest: SendCommand_error_unchanged)
  have room: "err = None \<and> length (buf (commands u)) < cap (commands u) \<longrightarrow>
      u' = u\<lparr>commands := (commands u)\<lparr>buf := buf (commands u) @ [cmd]\<rparr>\<rparr>"
    using assms by (auto dest: SendCommand_room)
  have full: "err = None \<and> \<not> length (buf (commands u)) < cap (commands u) \<longrightarrow>
      first_wake e = RoomFreed \<and>
      u' = u\<lparr>commands := (commands u)\<lparr>buf := tl (buf (commands u) @ [cmd])\<rparr>\<rparr>"
    using assms SendCommand_full [of e u cmd u'] by blast
  have "\<exists>b. commands u' = (commands u)\<lparr>buf := b\<rparr>"
  proof (cases "err = None")
    case False
    with err have "commands u' = (commands u)\<lparr>buf := buf (commands u)\<rparr>" by simp
    then show ?thesis ..
  next
    case True
    show ?thesis
    proof (cases "length (buf (commands u)) < cap (commands u)")
      case True
      with \<open>err = None\<close> room
      have "commands u' = commands (u\<lparr>commands := (commands u)\<lparr>buf := buf (commands u) @ [cmd]\<rparr>\<rparr>)"
        by simp
      then have "commands u' = (commands u)\<lparr>buf := buf (commands u) @ [cmd]\<rparr>" by simp
      then show ?thesis ..
    next
      case False
      with \<open>err = None\<close> full
      have "commands u' = commands (u\<lparr>commands := (commands u)\<lparr>buf := tl (buf (commands u) @ [cmd])\<rparr>\<rparr>)"
        by simp
      then have "commands u' = (commands u)\<lparr>buf := tl (buf (commands u) @ [cmd])\<rparr>" by simp
      then show ?thesis ..
    qed
  qed
  then obtain b where "commands u' = (commands u)\<lparr>buf := b\<rparr>" ..
  then have chan: "cap (commands u') = cap (commands u)" "closed (commands u') = closed (commands u)"
    by simp_all
  have newest: "err = None \<and> 0 < cap (commands u) \<longrightarrow>
      buf (commands u') \<noteq> [] \<and> last (buf (commands u')) = cmd"
    using SendCommand_only_commands(3) [OF assms] by blast
  from fields eq chan err room full newest show ?thesis
    by (intro conjI)
qed

theorem SendCommand_frame_witness:
  "SendCommand quiet marine stop_cmd
     = Inr (None, marine\<lparr>commands := (make_chan 10)\<lparr>buf := [stop_cmd]\<rparr>\<rparr>) \<and>
   SendCommand quiet (marine\<lparr>commands := (make_chan 10)\<lparr>buf := [stop_cmd]\<rparr>\<rparr>) (move_cmd origin)
     = Inr (None, marine\<lparr>commands := (make_chan 10)\<lparr>buf := [stop_cmd, move_cmd origin]\<rparr>\<rparr>) \<and>
   health (marine\<lparr>commands := (make_chan 10)\<lparr>buf := [stop_cmd]\<rparr>\<rparr>) = health marine \<and>
   state (marine\<lparr>commands := (make_chan 10)\<lparr>buf := [stop_cmd]\<rparr>\<rparr>) = state marine \<and>
   SendCommand quiet busy_marine stop_cmd
     = Inr (Some ''command queue full - backpressure'', busy_marine) \<and>
   first_wake draining = RoomFreed \<and>
   SendCommand draining busy_marine (move_cmd origin)
     = Inr (None, marine\<lparr>commands :=
              (make_chan 10)\<lparr>buf := replicate 9 stop_cmd @ [move_cmd origin]\<rparr>\<rparr>)"
proof -
  have ok: "SendCommand quiet marine stop_cmd
     = Inr (None, marine\<lparr>commands := (make_chan 10)\<lparr>buf := [stop_cmd]\<rparr>\<rparr>)"
    by (simp add: SendCommand_def chan_send_def marine_lifecycle make_chan_def)
  have ok2: "SendCommand quiet (marine\<lparr>commands := (make_chan 10)\<lparr>buf := [stop_cmd]\<rparr>\<rparr>)
      (move_cmd origin)
     = Inr (None, marine\<lparr>commands := (make_chan 10)\<lparr>buf := [stop_cmd, move_cmd origin]\<rparr>\<rparr>)"
    by (simp add: SendCommand_def chan_send_def marine_lifecycle make_chan_def)
  have full: "SendCommand quiet busy_marine stop_cmd
     = Inr (Some ''command queue full - backpressure'', busy_marine)"
    by (simp add: SendCommand_def chan_send_def busy_marine_def marine_lifecycle make_chan_def
        quiet_def first_wake_def)
  have w: "first_wake draining = RoomFreed"
    by (simp add: draining_def first_wake_def Millisecond_def)
  have nine: "replicate 10 stop_cmd = stop_cmd # replicate 9 stop_cmd"
    by (simp add: numeral_eq_Suc)
  have drained: "SendCommand draining busy_marine (move_cmd origin)
     = Inr (None, marine\<lparr>commands :=
              (make_chan 10)\<lparr>buf := replicate 9 stop_cmd @ [move_cmd origin]\<rparr>\<rparr>)"
    by (simp add: SendCommand_def chan_send_def busy_marine_def marine_lifecycle make_chan_def w
        nine)
  have h: "health (marine\<lparr>commands := (make_chan 10)\<lparr>buf := [stop_cmd]\<rparr>\<rparr>) = health marine"
    by (rule SendCommand_frame [OF ok, THEN conjunct1])
  have st: "state (marine\<lparr>commands := (make_chan 10)\<lparr>buf := [stop_cmd]\<rparr>\<rparr>) = state marine"
    by (rule SendCommand_frame [OF ok, THEN conjunct2, THEN conjunct2, THEN conjunct1])
  from ok ok2 h st full w drained show ?thesis
    by (intro conjI)
qed

lemma SendCommand_lifecycle_ok:
  assumes "SendCommand e u cmd = Inr (err, u')" and "lifecycle_ok u"
  shows "lifecycle_ok u'"
  using assms
  by (auto simp: SendCommand_def chan_send_def lifecycle_ok_def
      split: if_splits wait_event.splits list.splits)

lemma send_event_lifecycle_ok:
  "lifecycle_ok (outcome_heap (send_event h a ev) b) = lifecycle_ok (h b)"
  by (simp add: send_event_def lifecycle_ok_def split: send_result.splits)

lemma lifecycle_ok_updates:
  "lifecycle_ok (u\<lparr>state := s\<rparr>) = lifecycle_ok u"
  "lifecycle_ok (u\<lparr>position := p\<rparr>) = lifecycle_ok u"
  "lifecycle_ok (u\<lparr>target := t\<rparr>) = lifecycle_ok u"
  "lifecycle_ok (u\<lparr>health := k\<rparr>) = lifecycle_ok u"
  by (simp_all add: lifecycle_ok_def)

lemma dispatch_lifecycle_ok:
  assumes "\<And>b. lifecycle_ok (h b)"
  shows "lifecycle_ok (outcome_heap (dispatch h a cmd now) b)"
proof (cases "cmd_Type cmd")
  case CmdMove
  then show ?thesis
    using assms
    by (simp add: dispatch_def handleMove_def Let_def send_event_lifecycle_ok SetState_def
        SetPosition_def lifecycle_ok_updates)
next
  case CmdAttack
  then show ?thesis
    using assms
    by (cases "cmd_Target cmd")
      (simp_all add: dispatch_def handleAttack_def Let_def send_event_lifecycle_ok SetState_def
        SetTarget_def TakeDamage_def lifecycle_ok_updates)
next
  case CmdStop
  then show ?thesis
    using assms
    by (simp add: dispatch_def handleStop_def Let_def SetState_def SetTarget_def
        lifecycle_ok_updates)
next
  case CmdHold
  then show ?thesis
    using assms
    by (simp add: dispatch_def handleHold_def SetState_def lifecycle_ok_updates)
qed

section \<open>The managers\<close>

text \<open>
  Claim C7 at a registry of two units. \<^verbatim>\<open>GetAllUnits\<close> returns \<^verbatim>\<open>nil\<close>, not a map
  holding the registry's entries.
\<close>

theorem GetAllUnits_returns_nil:
  "units registry = Some [''marine-1'' \<mapsto> 0, ''zergling-1'' \<mapsto> 1] \<and>
   GetAllUnits registry = None"
  by (simp add: registry_def GetAllUnits_def)

text \<open>
  Claim C4 at the ledger with 10 of 100 minerals and a request for \<open>-20\<close>.
  \<^verbatim>\<open>AllocateResources\<close> hands back an empty response channel and submits nothing, and
  the transaction processor does nothing: the ledger keeps its 10 minerals, and no
  \<^verbatim>\<open>TransactionResult\<close>, successful or not, is ever put on the channel.
\<close>

theorem AllocateResources_delivers_nothing:
  "AllocateResources ledger ''builder'' [''minerals'' \<mapsto> - 20] timeout = (ledger, make_chan 1) \<and>
   buf (snd (AllocateResources ledger ''builder'' [''minerals'' \<mapsto> - 20] timeout)) = [] \<and>
   transactionProcessor (fst (AllocateResources ledger ''builder'' [''minerals'' \<mapsto> - 20] timeout))
     = ledger \<and>
   transactions ledger = make_chan 100 \<and>
   resources ledger ''minerals'' = Some \<lparr>current = 10, res_max = 100, lowThreshold = 20\<rparr>"
  by (simp add: AllocateResources_def transactionProcessor_def make_chan_def ledger_def)

end
